theory Spec2Isabelle
  imports
    Main
    "HOL-Library.Finite_Map"
    "HOL-Library.Char_ord"
    "HOL-Library.List_Lexorder"
    "HOL-Library.Multiset"
begin

text \<open>
  A policy engine that links third-party policies into one binary: the registry of
  policies and the runtime that executes them (Go), the build script that rewrites the
  manifest, compiles and packages (shell), and the generator of the aggregator source.
\<close>

section \<open>The policy contract and the registry (core/interfaces.go)\<close>

text \<open>
  An \<open>error\<close> is the message Go prints for it with \<open>%v\<close>; \<open>nil\<close> is \<open>None\<close>.
  The only context the engine ever passes is \<open>context.Background()\<close>.
  \<open>any\<close> stands for the \<open>interface{}\<close> values that travel through \<open>Execute\<close>:
  the sample input of \<open>main\<close> is a map from strings to a string and a string slice.
\<close>

type_synonym error = string

datatype go_context = Background

datatype any =
    VNil
  | VString string
  | VStrings "string list"
  | VMap "(string \<times> any) list"

text \<open>
  The \<open>Policy\<close> interface: three methods. \<open>Execute\<close> returns the Go pair
  \<open>(interface{}, error)\<close>; \<open>Validate\<close> returns an \<open>error\<close>. A policy value is a
  non-nil implementation whose methods return and depend on their arguments alone, as
  those of the example policies do; a nil interface value, on which every method call
  panics, appears only as the miss of \<open>Get\<close>.
\<close>

record Policy =
  Name :: string
  Execute :: "go_context \<Rightarrow> any \<Rightarrow> any \<times> error option"
  Validate :: "error option"

text \<open>\<open>PolicyRegistry\<close> is a struct with one field, a Go map from names to policies.\<close>

record PolicyRegistry =
  policies :: "(string, Policy) fmap"

definition NewPolicyRegistry :: PolicyRegistry where
  "NewPolicyRegistry = \<lparr> policies = fmempty \<rparr>"

text \<open>
  \<open>Register\<close> mutates the receiver; the model returns the error together with the
  registry after the call.
\<close>

definition Register :: "PolicyRegistry \<Rightarrow> Policy \<Rightarrow> error option \<times> PolicyRegistry" where
  "Register r p =
     (case Validate p of
        Some err \<Rightarrow> (Some err, r)
      | None \<Rightarrow> (None, r\<lparr> policies := fmupd (Name p) p (policies r) \<rparr>))"

text \<open>\<open>Get\<close> returns the comma-ok pair of a map read: the zero value (nil) and false on a miss.\<close>

definition Get :: "PolicyRegistry \<Rightarrow> string \<Rightarrow> Policy option \<times> bool" where
  "Get r name =
     (case fmlookup (policies r) name of
        Some p \<Rightarrow> (Some p, True)
      | None \<Rightarrow> (None, False))"

text \<open>
  Go's \<open>for name := range m\<close> visits every key of the map exactly once, in an order
  the language leaves unspecified (and the runtime randomises). The order of one
  execution of the statement is an argument of the model: \<open>range_order m ks\<close> says that
  \<open>ks\<close> is an order in which \<open>range\<close> may visit the keys of \<open>m\<close>.
\<close>

definition range_order :: "('k, 'v) fmap \<Rightarrow> 'k list \<Rightarrow> bool" where
  "range_order m ks \<longleftrightarrow> distinct ks \<and> set ks = fmdom' m"

text \<open>
  \<open>List\<close>: \<open>names\<close> starts empty and each visited name is appended. The second
  argument is the order in which this execution of \<open>range r.policies\<close> visits the keys.
\<close>

fun List_loop :: "string list \<Rightarrow> string list \<Rightarrow> string list" where
  "List_loop names [] = names"
| "List_loop names (name # rest) = List_loop (names @ [name]) rest"

definition List :: "PolicyRegistry \<Rightarrow> string list \<Rightarrow> string list" where
  "List r ks = List_loop [] ks"

text \<open>A run of \<open>Register\<close> calls on one registry, errors ignored by the caller.\<close>

fun Register_calls :: "PolicyRegistry \<Rightarrow> Policy list \<Rightarrow> PolicyRegistry" where
  "Register_calls r [] = r"
| "Register_calls r (p # ps) = Register_calls (snd (Register r p)) ps"


section \<open>The runtime (core/main.go)\<close>

text \<open>
  The log is the sequence of \<open>log.Printf\<close>/\<open>log.Println\<close> calls, each line kept as
  its format and arguments. \<open>LogResult v\<close> is the line \<open>Result: %s\<close> for the indented
  JSON of \<open>v\<close>.
\<close>

datatype log_line =
    PolicyEngineStarting
  | Loaded nat "string list"
  | WarningNoPoliciesRegistered
  | ExecutingPolicies
  | ExecutingPolicy string
  | ErrorExecutingPolicy string error
  | LogResult any
  | PolicyEngineCompletedSuccessfully
  | FailedToRegisterPolicy string error
  | RegisteredPolicy string

text \<open>The process: the global \<open>registry\<close> and what has been logged so far.\<close>

record process =
  registry :: PolicyRegistry
  logged :: "log_line list"

text \<open>
  A step either ends the process with an exit status (\<open>Inl\<close>) or goes on (\<open>Inr\<close>).
  \<open>log.Fatalf\<close> exits with status 1, a run-time panic with status 2, and returning
  from \<open>main\<close> with status 0.
\<close>

type_synonym exited = "nat \<times> process"

definition logf :: "log_line \<Rightarrow> process \<Rightarrow> process" where
  "logf l st = st\<lparr> logged := logged st @ [l] \<rparr>"

definition RegisterPolicy :: "process \<Rightarrow> Policy \<Rightarrow> exited + process" where
  "RegisterPolicy st p =
     (case Register (registry st) p of
        (Some err, r') \<Rightarrow>
          Inl (1, logf (FailedToRegisterPolicy (Name p) err) (st\<lparr> registry := r' \<rparr>))
      | (None, r') \<Rightarrow>
          Inr (logf (RegisteredPolicy (Name p)) (st\<lparr> registry := r' \<rparr>)))"

definition sample_input :: any where
  "sample_input =
     VMap [(''message'', VString ''Hello from policy engine''),
           (''data'', VStrings [''item1'', ''item2'', ''item3''])]"

text \<open>
  The loop of \<open>main\<close> over the names \<open>List\<close> returned. The policy is read from the
  registry with the ok flag dropped; calling \<open>Execute\<close> on a nil policy would panic.
\<close>

fun main_loop :: "any \<Rightarrow> string list \<Rightarrow> process \<Rightarrow> exited + process" where
  "main_loop input [] st = Inr st"
| "main_loop input (name # rest) st =
     (case fst (Get (registry st) name) of
        None \<Rightarrow> Inl (2, logf (ExecutingPolicy name) st)
      | Some policy \<Rightarrow>
          (let st1 = logf (ExecutingPolicy name) st;
               (result, err) = Execute policy Background input
           in case err of
                Some e \<Rightarrow> main_loop input rest (logf (ErrorExecutingPolicy name e) st1)
              | None \<Rightarrow> main_loop input rest (logf (LogResult result) st1)))"

text \<open>
  \<open>main\<close>, with the order in which \<open>range\<close> visits the registry inside \<open>List\<close> as its
  second argument. The result is the exit status and the final process.
\<close>

definition main :: "process \<Rightarrow> string list \<Rightarrow> exited" where
  "main st ks =
     (let st1 = logf PolicyEngineStarting st;
          policies = List (registry st1) ks;
          st2 = logf (Loaded (length policies) policies) st1
      in if length policies = 0 then (0, logf WarningNoPoliciesRegistered st2)
         else
           (case main_loop sample_input policies (logf ExecutingPolicies st2) of
              Inl e \<Rightarrow> e
            | Inr st3 \<Rightarrow> (0, logf PolicyEngineCompletedSuccessfully st3)))"

text \<open>The process as it is when \<open>main\<close> starts and no \<open>init\<close> has registered anything.\<close>

definition initial_process :: process where
  "initial_process = \<lparr> registry = NewPolicyRegistry, logged = [] \<rparr>"

text \<open>The \<open>ExecutingPolicy\<close> lines of a log, in order: the policies the batch reached.\<close>

fun executed :: "log_line list \<Rightarrow> string list" where
  "executed [] = []"
| "executed (ExecutingPolicy n # ls) = n # executed ls"
| "executed (_ # ls) = executed ls"


text \<open>
  What one policy contributes to the log of a batch: the line announcing it, followed
  by the error line when its \<open>Execute\<close> returned an error and by the result line
  otherwise. It depends on that policy alone.
\<close>

definition batch_lines :: "PolicyRegistry \<Rightarrow> any \<Rightarrow> string \<Rightarrow> log_line list" where
  "batch_lines r input name =
     (case fmlookup (policies r) name of
        None \<Rightarrow> []
      | Some p \<Rightarrow>
          ExecutingPolicy name #
          (case snd (Execute p Background input) of
             Some e \<Rightarrow> [ErrorExecutingPolicy name e]
           | None \<Rightarrow> [LogResult (fst (Execute p Background input))]))"

subsection \<open>Example policies and registries\<close>

definition ok_policy :: "string \<Rightarrow> Policy" where
  "ok_policy n =
     \<lparr> Name = n,
       Execute = (\<lambda>ctx input. (VMap [(''policy'', VString n), (''input'', input)], None)),
       Validate = None \<rparr>"

definition failing_policy :: "string \<Rightarrow> Policy" where
  "failing_policy n =
     \<lparr> Name = n, Execute = (\<lambda>ctx input. (VNil, Some ''execution failed'')), Validate = None \<rparr>"

definition invalid_policy :: "string \<Rightarrow> Policy" where
  "invalid_policy n =
     \<lparr> Name = n, Execute = (\<lambda>ctx input. (input, None)),
       Validate = Some ''invalid configuration'' \<rparr>"

definition late_alpha :: Policy where
  "late_alpha =
     \<lparr> Name = ''alpha'', Execute = (\<lambda>ctx input. (VString ''later'', None)), Validate = None \<rparr>"

definition alpha_beta :: PolicyRegistry where
  "alpha_beta = Register_calls NewPolicyRegistry [ok_policy ''alpha'', ok_policy ''beta'']"

definition three_policies :: process where
  "three_policies =
     \<lparr> registry = Register_calls NewPolicyRegistry
                    [ok_policy ''first'', failing_policy ''second'', ok_policy ''third''],
       logged = [] \<rparr>"


section \<open>The build pipeline (build.sh)\<close>

text \<open>
  The script runs under \<open>set -e\<close>: the first command that fails ends it with that
  command's exit status. The commands that act on the machine are named here; their
  exit statuses in one run are part of the \<open>world\<close> the script runs in. The import
  generator (\<open>go run main.go -policies=/policies -output=/app/core/imports.go\<close>) is
  one of them: the script sees only its exit status. The text utilities (\<open>echo\<close>,
  \<open>test\<close>, \<open>basename\<close>, \<open>grep\<close>, \<open>awk\<close>, \<open>du\<close>, \<open>cut\<close>) always return; the exit
  status of the \<open>grep | awk\<close> pipeline is that of \<open>awk\<close>.
\<close>

datatype command =
    CdImportGenerator
  | GoModDownload
  | GoRunMain
  | CdCore
  | GoModEditReplace string
  | GoModTidy
  | GoBuild
  | MkdirBuildContext
  | CpBinary
  | CatDockerfile
  | DockerBuild string string
  | RmBuildContext

text \<open>
  One match of the glob \<open>/policies/*/\<close>: the path as the shell expands it (with the
  final slash) and the lines of its \<open>go.mod\<close> when that is a regular file.
\<close>

record policy_dir =
  dir_path :: string
  go_mod :: "string list option"

record world =
  status :: "command \<Rightarrow> nat"
  policies_is_dir :: bool
  policy_dirs :: "policy_dir list"
  docker_socket :: bool
  POLICY_ENGINE_IMAGE_REPO :: "string option"
  POLICY_ENGINE_TAG :: "string option"

text \<open>The lines the script prints that carry information (banners and rules left out).\<close>

datatype echoed =
    Step1
  | ImportGenerationComplete
  | Step2
  | AddingPolicyModules
  | Adding string string
  | RunningGoModTidy
  | DependenciesResolved
  | Step3
  | BuildComplete
  | BuildSummary
  | Step4
  | WarningDockerSocketNotMounted
  | BinaryAvailable
  | PreparingBuildContext
  | BuildingFinalImage
  | FinalImageCreated string string
  | FinalImageSummary string string

text \<open>
  What the script changes: the replace directives of \<open>/app/core/go.mod\<close> (a map from
  the replaced module to its replacement, see below), its output, the compiled binary
  and the images built through the socket.
\<close>

type_synonym module_version = "string \<times> string"

type_synonym replacements = "(module_version, module_version) fmap"

record build_state =
  manifest :: replacements
  out :: "echoed list"
  binary :: bool
  images :: "(string \<times> string) list"

type_synonym sh = "(nat \<times> build_state) + build_state"

definition echo :: "echoed \<Rightarrow> build_state \<Rightarrow> build_state" where
  "echo l st = st\<lparr> out := out st @ [l] \<rparr>"

definition run :: "world \<Rightarrow> command \<Rightarrow> build_state \<Rightarrow> sh" where
  "run w c st = (if status w c = 0 then Inr st else Inl (status w c, st))"

definition then_do :: "sh \<Rightarrow> (build_state \<Rightarrow> sh) \<Rightarrow> sh" where
  "then_do r f = (case r of Inl e \<Rightarrow> Inl e | Inr st \<Rightarrow> f st)"

subsection \<open>Extracting the module path: \<open>grep "^module " go.mod | awk '{print $2}'\<close>\<close>

definition grep_module :: "string list \<Rightarrow> string list" where
  "grep_module ls = filter (\<lambda>l. take 7 l = ''module '') ls"

definition blank :: "char \<Rightarrow> bool" where
  "blank c \<longleftrightarrow> c = CHR '' '' \<or> c = CHR 0x09"

function awk_fields :: "string \<Rightarrow> string list" where
  "awk_fields [] = []"
| "awk_fields (c # cs) =
     (if blank c then awk_fields cs
      else (c # takeWhile (\<lambda>x. \<not> blank x) cs) # awk_fields (dropWhile (\<lambda>x. \<not> blank x) cs))"
  by pat_completeness auto
termination
  by (relation "measure length") (auto simp: length_dropWhile_le less_Suc_eq_le)

definition awk_print2 :: "string \<Rightarrow> string" where
  "awk_print2 l = (case awk_fields l of f1 # f2 # fs \<Rightarrow> f2 | _ \<Rightarrow> [])"

text \<open>\<open>$(...)\<close>: the lines of the output, each ended by a newline, with the trailing newlines removed.\<close>

definition command_substitution :: "string list \<Rightarrow> string" where
  "command_substitution ls =
     rev (dropWhile (\<lambda>c. c = CHR 0x0A) (rev (concat (map (\<lambda>l. l @ [CHR 0x0A]) ls))))"

definition module_path :: "string list \<Rightarrow> string" where
  "module_path ls = command_substitution (map awk_print2 (grep_module ls))"

subsection \<open>\<open>go mod edit -replace=old=new\<close>\<close>

text \<open>
  The go command is not part of the repository. What it does with the argument of
  \<open>-replace\<close> is modelled after its own sources (\<open>flagReplace\<close>,
  \<open>parsePathVersionOptional\<close> and \<open>AddReplace\<close> are its names): the argument is cut
  at the first \<open>=\<close> and both sides are trimmed of white space; each side is cut at
  the first \<open>@\<close> into a path and a version, trimmed again; then every directive the
  new one replaces (same path, and same version unless the new one names none) is
  dropped and the new one is recorded. \<open>strings.TrimSpace\<close> removes Unicode white
  space at both ends; the strings are UTF-8 bytes, so each white-space character is
  the sequence of its bytes.

  The replace directives of \<open>go.mod\<close> are kept as a finite map from the replaced
  module (path and version, the version empty when the directive names none) to its
  replacement: the go command writes one directive per replaced module and sorts the
  lines, so the order of the lines is no part of the state. Whether a call fails is
  decided by the \<open>world\<close>. \<open>go mod tidy\<close> rewrites requirements and leaves the
  replace directives alone.
\<close>

definition white_space :: "string list" where
  "white_space =
     [[CHR 0x09], [CHR 0x0A], [CHR 0x0B], [CHR 0x0C], [CHR 0x0D], [CHR 0x20],
      [CHR 0xC2, CHR 0x85], [CHR 0xC2, CHR 0xA0],
      [CHR 0xE1, CHR 0x9A, CHR 0x80],
      [CHR 0xE2, CHR 0x80, CHR 0x80], [CHR 0xE2, CHR 0x80, CHR 0x81],
      [CHR 0xE2, CHR 0x80, CHR 0x82], [CHR 0xE2, CHR 0x80, CHR 0x83],
      [CHR 0xE2, CHR 0x80, CHR 0x84], [CHR 0xE2, CHR 0x80, CHR 0x85],
      [CHR 0xE2, CHR 0x80, CHR 0x86], [CHR 0xE2, CHR 0x80, CHR 0x87],
      [CHR 0xE2, CHR 0x80, CHR 0x88], [CHR 0xE2, CHR 0x80, CHR 0x89],
      [CHR 0xE2, CHR 0x80, CHR 0x8A],
      [CHR 0xE2, CHR 0x80, CHR 0xA8], [CHR 0xE2, CHR 0x80, CHR 0xA9],
      [CHR 0xE2, CHR 0x80, CHR 0xAF],
      [CHR 0xE2, CHR 0x81, CHR 0x9F],
      [CHR 0xE3, CHR 0x80, CHR 0x80]]"

text \<open>Removing, as long as there is one, a sequence of the list from the front of the string.\<close>

function strip :: "string list \<Rightarrow> string \<Rightarrow> string" where
  "strip wss s =
     (case find (\<lambda>ws. ws \<noteq> [] \<and> take (length ws) s = ws) wss of
        None \<Rightarrow> s
      | Some ws \<Rightarrow> strip wss (drop (length ws) s))"
  by pat_completeness auto
termination
proof (relation "measure (\<lambda>(wss, s). length s)")
  show "wf (measure (\<lambda>(wss, s). length s))" by simp
next
  fix wss :: "string list" and s ws :: string
  assume "find (\<lambda>ws. ws \<noteq> [] \<and> take (length ws) s = ws) wss = Some ws"
  then have "ws \<noteq> []" and t: "take (length ws) s = ws"
    by (auto simp: find_Some_iff)
  from t have "length (take (length ws) s) = length ws"
    by simp
  then have "length ws \<le> length s"
    by simp
  with \<open>ws \<noteq> []\<close> show "((wss, drop (length ws) s), (wss, s)) \<in> measure (\<lambda>(wss, s). length s)"
    by (cases ws) auto
qed

declare strip.simps [simp del]

definition TrimSpace :: "string \<Rightarrow> string" where
  "TrimSpace s = rev (strip (map rev white_space) (rev (strip white_space s)))"

text \<open>\<open>strings.Cut\<close>: the parts before and after the first separator, and whether it was found.\<close>

definition Cut :: "string \<Rightarrow> char \<Rightarrow> string \<times> string \<times> bool" where
  "Cut s sep =
     (if sep \<in> set s
      then (takeWhile (\<lambda>c. c \<noteq> sep) s, drop 1 (dropWhile (\<lambda>c. c \<noteq> sep) s), True)
      else (s, [], False))"

definition parsePathVersionOptional :: "string \<Rightarrow> module_version" where
  "parsePathVersionOptional arg =
     (case Cut arg (CHR ''@'') of
        (before, after, found) \<Rightarrow>
          if \<not> found then (arg, []) else (TrimSpace before, TrimSpace after))"

text \<open>
  The replaced module and the replacement an argument stands for. The script always
  passes an argument with a \<open>=\<close> in it.
\<close>

definition flagReplace :: "string \<Rightarrow> module_version \<times> module_version" where
  "flagReplace arg =
     (case Cut arg (CHR ''='') of
        (before, after, found) \<Rightarrow>
          (parsePathVersionOptional (TrimSpace before),
           parsePathVersionOptional (TrimSpace after)))"

text \<open>Whether a new directive for \<open>old\<close> replaces an existing directive for \<open>k\<close>.\<close>

definition replaces :: "module_version \<Rightarrow> module_version \<Rightarrow> bool" where
  "replaces old k \<longleftrightarrow> fst k = fst old \<and> (snd old = [] \<or> snd k = snd old)"

definition AddReplace :: "module_version \<Rightarrow> module_version \<Rightarrow> replacements \<Rightarrow> replacements" where
  "AddReplace old new m = fmupd old new (fmfilter (\<lambda>k. \<not> replaces old k) m)"

definition go_mod_edit_replace :: "string \<Rightarrow> replacements \<Rightarrow> replacements" where
  "go_mod_edit_replace arg m = (case flagReplace arg of (old, new) \<Rightarrow> AddReplace old new m)"

subsection \<open>The steps of the script\<close>

definition step1 :: "world \<Rightarrow> build_state \<Rightarrow> sh" where
  "step1 w st =
     then_do (run w CdImportGenerator (echo Step1 st)) (\<lambda>st.
     then_do (run w GoModDownload st) (\<lambda>st.
     then_do (run w GoRunMain st) (\<lambda>st.
     Inr (echo ImportGenerationComplete st))))"

text \<open>The body of \<open>for policy_dir in /policies/*/\<close>.\<close>

definition loop_body :: "world \<Rightarrow> policy_dir \<Rightarrow> build_state \<Rightarrow> sh" where
  "loop_body w d st =
     (case go_mod d of
        None \<Rightarrow> Inr st
      | Some ls \<Rightarrow>
          (let mp = module_path ls in
           if mp \<noteq> [] then
             then_do (run w (GoModEditReplace (mp @ ''='' @ dir_path d))
                        (echo (Adding mp (dir_path d)) st))
               (\<lambda>st. Inr (st\<lparr> manifest :=
                                go_mod_edit_replace (mp @ ''='' @ dir_path d) (manifest st) \<rparr>))
           else Inr st))"

fun for_policy_dir :: "world \<Rightarrow> policy_dir list \<Rightarrow> build_state \<Rightarrow> sh" where
  "for_policy_dir w [] st = Inr st"
| "for_policy_dir w (d # ds) st = then_do (loop_body w d st) (for_policy_dir w ds)"

text \<open>A glob without a match stays as it is written, and the loop runs once on the pattern.\<close>

definition glob_policies :: "world \<Rightarrow> policy_dir list" where
  "glob_policies w =
     (if policy_dirs w = [] then [\<lparr> dir_path = ''/policies/*/'', go_mod = None \<rparr>]
      else policy_dirs w)"

definition step2 :: "world \<Rightarrow> build_state \<Rightarrow> sh" where
  "step2 w st =
     then_do (run w CdCore (echo Step2 st)) (\<lambda>st.
     then_do (if policies_is_dir w
              then for_policy_dir w (glob_policies w) (echo AddingPolicyModules st)
              else Inr st) (\<lambda>st.
     then_do (run w GoModTidy (echo RunningGoModTidy st)) (\<lambda>st.
     Inr (echo DependenciesResolved st))))"

definition step3 :: "world \<Rightarrow> build_state \<Rightarrow> sh" where
  "step3 w st =
     then_do (run w GoBuild (echo Step3 st)) (\<lambda>st.
     Inr (echo BuildSummary (echo BuildComplete (st\<lparr> binary := True \<rparr>))))"

text \<open>\<open>${VAR:-default}\<close>: the default when the variable is unset or empty.\<close>

definition or_default :: "string option \<Rightarrow> string \<Rightarrow> string" where
  "or_default v d = (case v of None \<Rightarrow> d | Some s \<Rightarrow> if s = [] then d else s)"

definition IMAGE_NAME :: "world \<Rightarrow> string" where
  "IMAGE_NAME w = or_default (POLICY_ENGINE_IMAGE_REPO w) ''policy-engine''"

definition IMAGE_TAG :: "world \<Rightarrow> string" where
  "IMAGE_TAG w = or_default (POLICY_ENGINE_TAG w) ''latest''"

definition step4 :: "world \<Rightarrow> build_state \<Rightarrow> sh" where
  "step4 w st =
     (let st = echo Step4 st in
      if \<not> docker_socket w then
        Inl (0, echo BinaryAvailable (echo WarningDockerSocketNotMounted st))
      else
        then_do (run w MkdirBuildContext st) (\<lambda>st.
        then_do (run w CpBinary (echo PreparingBuildContext st)) (\<lambda>st.
        then_do (run w CatDockerfile st) (\<lambda>st.
        then_do (run w (DockerBuild (IMAGE_NAME w) (IMAGE_TAG w)) (echo BuildingFinalImage st)) (\<lambda>st.
        then_do (run w RmBuildContext
                   (echo (FinalImageCreated (IMAGE_NAME w) (IMAGE_TAG w))
                      (st\<lparr> images := images st @ [(IMAGE_NAME w, IMAGE_TAG w)] \<rparr>))) (\<lambda>st.
        Inr (echo (FinalImageSummary (IMAGE_NAME w) (IMAGE_TAG w)) st)))))))"

text \<open>The whole script: its exit status and the state it leaves.\<close>

definition build_sh :: "world \<Rightarrow> build_state \<Rightarrow> nat \<times> build_state" where
  "build_sh w st =
     (case then_do (step1 w st) (\<lambda>st.
           then_do (step2 w st) (\<lambda>st.
           then_do (step3 w st) (\<lambda>st.
           step4 w st)))
      of Inl e \<Rightarrow> e | Inr st \<Rightarrow> (0, st))"

text \<open>The module path a directory declares, as the loop extracts it (empty when it has none).\<close>

definition declared :: "policy_dir \<Rightarrow> string" where
  "declared d = (case go_mod d of None \<Rightarrow> [] | Some ls \<Rightarrow> module_path ls)"


subsection \<open>Reading the outcome of a run\<close>

definition exit_status :: "sh \<Rightarrow> nat" where
  "exit_status r = (case r of Inl (c, st) \<Rightarrow> c | Inr st \<Rightarrow> 0)"

definition final_state :: "sh \<Rightarrow> build_state" where
  "final_state r = (case r of Inl (c, st) \<Rightarrow> st | Inr st \<Rightarrow> st)"

text \<open>The commands of the packaging step that run under \<open>set -e\<close> once the socket is there.\<close>

definition packaging_commands :: "world \<Rightarrow> command list" where
  "packaging_commands w =
     [MkdirBuildContext, CpBinary, CatDockerfile, DockerBuild (IMAGE_NAME w) (IMAGE_TAG w),
      RmBuildContext]"

text \<open>
  The argument the loop passes for a directory that declares a module path, and the
  replaced module and the replacement the go command reads from it.
\<close>

definition replace_arg :: "policy_dir \<Rightarrow> string" where
  "replace_arg d = declared d @ ''='' @ dir_path d"

definition replace_old :: "policy_dir \<Rightarrow> module_version" where
  "replace_old d = fst (flagReplace (replace_arg d))"

definition replace_new :: "policy_dir \<Rightarrow> module_version" where
  "replace_new d = snd (flagReplace (replace_arg d))"







subsection \<open>Example worlds\<close>

definition fresh :: build_state where
  "fresh = \<lparr> manifest = fmempty, out = [], binary = False, images = [] \<rparr>"

definition example_world :: "policy_dir list \<Rightarrow> bool \<Rightarrow> (command \<Rightarrow> nat) \<Rightarrow> world" where
  "example_world ds sock sts =
     \<lparr> status = sts, policies_is_dir = True, policy_dirs = ds, docker_socket = sock,
       POLICY_ENGINE_IMAGE_REPO = None, POLICY_ENGINE_TAG = None \<rparr>"

definition alpha_dir :: policy_dir where
  "alpha_dir =
     \<lparr> dir_path = ''/policies/alpha/'', go_mod = Some [''module org/alpha'', [], ''go 1.21''] \<rparr>"

definition beta_dir :: policy_dir where
  "beta_dir =
     \<lparr> dir_path = ''/policies/beta/'', go_mod = Some [''module org/beta'', [], ''go 1.21''] \<rparr>"

text \<open>
  A directory whose \<open>go.mod\<close> declares the module path of \<open>alpha_dir\<close> and has its
  lines ended by a carriage return and a newline.
\<close>

definition gamma_crlf_dir :: policy_dir where
  "gamma_crlf_dir =
     \<lparr> dir_path = ''/policies/gamma/'',
       go_mod = Some [''module org/alpha'' @ [CHR 0x0D], [CHR 0x0D], ''go 1.21'' @ [CHR 0x0D]] \<rparr>"


section \<open>The discovery order and the code generator\<close>

text \<open>
  Modelled from the spec: the import generator (\<open>import-generator/main.go\<close>), which
  scans the policy root and writes \<open>core/imports.go\<close>, is not among the sources; only
  its caller \<open>build.sh\<close> is. The definitions of this section follow sections 3, 4.1
  and 4.2 of the specification: a discovered module has a root-relative path and a
  declared import identifier; the scanner hands the modules over sorted by import
  identifier; the generator gives each module an alias (the final path segment of the
  identifier, with a numeric discriminator in discovery order when that name was
  already taken) and emits a machine-generated header, one import per module and one
  registration call per module in an initialisation block, in the same order.
\<close>

text \<open>Modelled from the spec: the discovered unit of section 3 (the import generator is missing).\<close>

record PolicyModule =
  root_relative_path :: string
  import_identifier :: string

text \<open>
  Modelled from the spec: the scanner's output order of section 4.1, sorted by declared
  import identifier (the scanner of the import generator is missing).
\<close>

definition discovered :: "PolicyModule list \<Rightarrow> PolicyModule list" where
  "discovered ms = sort_key import_identifier ms"

text \<open>
  Modelled from the spec: the alias of section 4.2, the final path segment of the
  import identifier, followed by a number when earlier modules in discovery order
  have the same final segment (the alias computation of the import generator is missing).
\<close>

definition final_segment :: "string \<Rightarrow> string" where
  "final_segment s = rev (takeWhile (\<lambda>c. c \<noteq> CHR ''/'') (rev s))"

definition digit_char :: "nat \<Rightarrow> char" where
  "digit_char d = char_of (48 + d)"

function show_nat :: "nat \<Rightarrow> string" where
  "show_nat n = (if n < 10 then [digit_char n] else show_nat (n div 10) @ [digit_char (n mod 10)])"
  by pat_completeness auto
termination
  by (relation "measure id") auto

fun assign_aliases :: "string list \<Rightarrow> string list \<Rightarrow> (string \<times> string) list" where
  "assign_aliases seen [] = []"
| "assign_aliases seen (ident # idents) =
     (let base = final_segment ident;
          n = count_list seen base;
          alias = (if n = 0 then base else base @ show_nat n)
      in (alias, ident) # assign_aliases (seen @ [base]) idents)"

text \<open>
  Modelled from the spec: the aggregator source of section 3, the ordered pairs of
  alias and import identifier and the registration statements, one per module in the
  order of the imports (the emitting part of the import generator is missing).
\<close>

record AggregatorSource =
  import_pairs :: "(string \<times> string) list"
  registrations :: "string list"

definition aggregate :: "PolicyModule list \<Rightarrow> AggregatorSource" where
  "aggregate ms =
     (let pairs = assign_aliases [] (map import_identifier ms)
      in \<lparr> import_pairs = pairs, registrations = map fst pairs \<rparr>)"

text \<open>
  Modelled from the spec: the generated file of sections 4.2 and 6 as lines, a header
  marking it as machine-generated, the imports, and the registration calls inside an
  initialisation block (the template of the import generator is missing).
\<close>

definition render :: "AggregatorSource \<Rightarrow> string list" where
  "render a =
     [''// Code generated by import-generator. DO NOT EDIT.'', ''package main'', ''import (''] @
     map (\<lambda>(alias, ident). alias @ '' '' @ [CHR 0x22] @ ident @ [CHR 0x22]) (import_pairs a) @
     ['')'', ''func init() {''] @
     map (\<lambda>alias. ''RegisterPolicy(&'' @ alias @ ''.Policy{})'') (registrations a) @
     [''}'']"

text \<open>
  Modelled from the spec: one generation run over the modules in the order the directory
  traversal met them, the scanner's sort followed by the generator (both missing).
\<close>

definition generate :: "PolicyModule list \<Rightarrow> string list" where
  "generate ms = render (aggregate (discovered ms))"


subsection \<open>Example modules\<close>

definition alpha_module :: PolicyModule where
  "alpha_module = \<lparr> root_relative_path = ''alpha'', import_identifier = ''org/alpha'' \<rparr>"

definition beta_module :: PolicyModule where
  "beta_module = \<lparr> root_relative_path = ''beta'', import_identifier = ''org/beta'' \<rparr>"


section \<open>The discovery scanner and the pipeline around it\<close>

text \<open>
  Modelled from the spec: the scanner of the import generator
  (\<open>import-generator/main.go\<close>) is missing. What it finds in one immediate
  subdirectory of the policy root, after sections 4.1 and 6: the manifest file is
  absent, present without an extractable import identifier, or declares one; and the
  conventionally named source file defining the contract type is there or not. How
  the missing scanner reads a manifest is not known, so its findings are given and
  not computed from the lines \<open>build.sh\<close> greps.
\<close>

datatype manifest_file = NoManifest | Unparsable | Declares string

record subdirectory =
  relative_path :: string
  found_manifest :: manifest_file
  source_file :: bool

text \<open>
  Modelled from the spec: the two fatal discovery errors of section 7 (the error
  handling of the import generator is missing).
\<close>

datatype discovery_error = MalformedModule string | CollidingIdentifiers

text \<open>
  Modelled from the spec: recognition of section 4.1 (the scanner is missing). A
  manifest that is present but yields no identifier is a discovery error; a
  directory without manifest or without the source file is skipped; a directory with
  both is a module.
\<close>

fun recognise :: "subdirectory list \<Rightarrow> discovery_error + PolicyModule list" where
  "recognise [] = Inr []"
| "recognise (s # ss) =
     (case found_manifest s of
        Unparsable \<Rightarrow> Inl (MalformedModule (relative_path s))
      | NoManifest \<Rightarrow> recognise ss
      | Declares i \<Rightarrow>
          if \<not> source_file s then recognise ss
          else (case recognise ss of
                  Inl e \<Rightarrow> Inl e
                | Inr ms \<Rightarrow>
                    Inr (\<lparr> root_relative_path = relative_path s, import_identifier = i \<rparr> # ms)))"

text \<open>
  Modelled from the spec: the scan of sections 3 and 4.1 (the scanner is missing).
  Identifiers are unique per run, a collision is a fatal discovery error; the modules
  come out sorted by import identifier.
\<close>

definition scan :: "subdirectory list \<Rightarrow> discovery_error + PolicyModule list" where
  "scan ss =
     (case recognise ss of
        Inl e \<Rightarrow> Inl e
      | Inr ms \<Rightarrow>
          if distinct (map import_identifier ms) then Inr (discovered ms)
          else Inl CollidingIdentifiers)"

text \<open>
  Modelled from the spec: one run of the import generator (missing), the scan
  followed by the code generator of section 4.2, which scans nothing itself.
\<close>

definition import_generator :: "subdirectory list \<Rightarrow> discovery_error + string list" where
  "import_generator ss =
     (case scan ss of Inl e \<Rightarrow> Inl e | Inr ms \<Rightarrow> Inr (render (aggregate ms)))"

text \<open>
  Modelled from the spec: the exit status of the import generator (missing) as
  \<open>build.sh\<close> sees it. A discovery error is fatal (sections 4.1, 6 and 7: a status
  other than 0, here 1); otherwise the status is the one the \<open>world\<close> gives, which
  stands for the failure to write the output.
\<close>

definition generator_status :: "subdirectory list \<Rightarrow> world \<Rightarrow> nat" where
  "generator_status ss w =
     (case import_generator ss of Inl e \<Rightarrow> 1 | Inr src \<Rightarrow> status w GoRunMain)"

text \<open>
  Modelled from the spec: the world in which \<open>build.sh\<close> runs when its first step is
  that import generator (missing), the status of \<open>go run main.go\<close> being the one above.
\<close>

definition with_generator :: "subdirectory list \<Rightarrow> world \<Rightarrow> world" where
  "with_generator ss w = w\<lparr> status := (status w)(GoRunMain := generator_status ss w) \<rparr>"

text \<open>
  Modelled from the spec: the aggregator source on disk after the generator step (the
  import generator is missing). It is written when the script reached the generator
  and the generator succeeded; a fatal path publishes nothing (sections 4.2 and 7).
\<close>

definition generator_writes ::
  "subdirectory list \<Rightarrow> world \<Rightarrow> string list option \<Rightarrow> string list option" where
  "generator_writes ss w imports_go =
     (case import_generator ss of
        Inl e \<Rightarrow> imports_go
      | Inr src \<Rightarrow>
          if status w CdImportGenerator = 0 \<and> status w GoModDownload = 0 \<and>
             status w GoRunMain = 0
          then Some src else imports_go)"

text \<open>
  Modelled from the spec: the pipeline, \<open>build.sh\<close> run with the import generator
  (missing) as its first step. The state is that of the script together with the
  aggregator source on disk.
\<close>

definition pipeline ::
  "subdirectory list \<Rightarrow> world \<Rightarrow> build_state \<times> string list option \<Rightarrow>
   nat \<times> build_state \<times> string list option" where
  "pipeline ss w s =
     (let r = build_sh (with_generator ss w) (fst s)
      in (fst r, snd r, generator_writes ss w (snd s)))"

subsection \<open>Example subdirectories\<close>

definition alpha_sub :: subdirectory where
  "alpha_sub =
     \<lparr> relative_path = ''alpha'', found_manifest = Declares ''org/alpha'', source_file = True \<rparr>"

definition beta_sub :: subdirectory where
  "beta_sub =
     \<lparr> relative_path = ''beta'', found_manifest = Declares ''org/beta'', source_file = True \<rparr>"

text \<open>A second module that declares the identifier of the first.\<close>

definition beta_as_alpha_sub :: subdirectory where
  "beta_as_alpha_sub =
     \<lparr> relative_path = ''beta'', found_manifest = Declares ''org/alpha'', source_file = True \<rparr>"

text \<open>A directory whose manifest yields no identifier.\<close>

definition broken_sub :: subdirectory where
  "broken_sub =
     \<lparr> relative_path = ''broken'', found_manifest = Unparsable, source_file = True \<rparr>"

text \<open>A directory that follows no convention.\<close>

definition notes_sub :: subdirectory where
  "notes_sub = \<lparr> relative_path = ''notes'', found_manifest = NoManifest, source_file = False \<rparr>"


section \<open>Properties of the registry\<close>

lemma List_loop_append: "List_loop names ks = names @ ks"
  by (induction ks arbitrary: names) simp_all

lemma List_eq: "List r ks = ks"
  by (simp add: List_def List_loop_append)

lemma Register_policies:
  "policies (snd (Register r p)) =
     (case Validate p of Some e \<Rightarrow> policies r | None \<Rightarrow> fmupd (Name p) p (policies r))"
  by (simp add: Register_def split: option.split)

lemma Register_calls_dom:
  "fmdom' (policies (Register_calls r ps)) =
     fmdom' (policies r) \<union> Name ` {p \<in> set ps. Validate p = None}"
  by (induction ps arbitrary: r) (auto simp: Register_policies split: option.splits)

lemma range_order_length: "range_order m ks \<Longrightarrow> length ks = card (fmdom' m)"
  by (metis distinct_card range_order_def)

text \<open>
  C5. \<open>Register\<close> looks at \<open>Validate\<close> first. When it returns an error, \<open>Register\<close>
  returns that error and the registry is the one it was given. When it returns nil,
  \<open>Register\<close> returns nil, the map has been updated at \<open>Name p\<close> with \<open>p\<close>, so that
  \<open>Get\<close> finds \<open>p\<close> under its name, and every other name reads as before. At start-up,
  \<open>RegisterPolicy\<close> turns the error into an exit with status 1 and goes on otherwise.
\<close>

theorem Register_validates_first:
  "(Validate p = Some e \<longrightarrow>
      Register r p = (Some e, r) \<and>
      RegisterPolicy st p = Inl (1, logf (FailedToRegisterPolicy (Name p) e) st)) \<and>
   (Validate p = None \<longrightarrow>
      fst (Register r p) = None \<and>
      policies (snd (Register r p)) = fmupd (Name p) p (policies r) \<and>
      Get (snd (Register r p)) (Name p) = (Some p, True) \<and>
      (\<forall>n. n \<noteq> Name p \<longrightarrow> Get (snd (Register r p)) n = Get r n) \<and>
      RegisterPolicy st p =
        Inr (logf (RegisteredPolicy (Name p)) (st\<lparr> registry := snd (Register (registry st) p) \<rparr>)))"
  by (simp add: Register_def Get_def RegisterPolicy_def)

text \<open>
  An invalid policy leaves the registry of alpha and beta as it is; a valid one is
  found under its name afterwards and alpha is still there.
\<close>

theorem Register_validates_first_witness:
  "Validate (invalid_policy ''gamma'') = Some ''invalid configuration'' \<and>
   Register alpha_beta (invalid_policy ''gamma'') = (Some ''invalid configuration'', alpha_beta) \<and>
   RegisterPolicy initial_process (invalid_policy ''gamma'') =
     Inl (1, \<lparr> registry = NewPolicyRegistry,
               logged = [FailedToRegisterPolicy ''gamma'' ''invalid configuration''] \<rparr>) \<and>
   Validate (ok_policy ''gamma'') = None \<and>
   fst (Register alpha_beta (ok_policy ''gamma'')) = None \<and>
   Get (snd (Register alpha_beta (ok_policy ''gamma''))) ''gamma'' = (Some (ok_policy ''gamma''), True) \<and>
   ''alpha'' \<noteq> Name (ok_policy ''gamma'') \<and>
   Get (snd (Register alpha_beta (ok_policy ''gamma''))) ''alpha'' = Get alpha_beta ''alpha''"
  using Register_validates_first[of "invalid_policy ''gamma''" "''invalid configuration''" alpha_beta
          initial_process]
        Register_validates_first[of "ok_policy ''gamma''" "''x''" alpha_beta initial_process]
  by (simp add: invalid_policy_def ok_policy_def initial_process_def logf_def)

text \<open>
  C10. When a valid policy \<open>q\<close> is registered after a valid policy \<open>p\<close> of the same
  name, the second call returns nil as well, \<open>Get\<close> returns \<open>q\<close> under that name and the
  set of names has not grown. After any run of \<open>Register\<close> calls on a new registry, the
  length of what \<open>List\<close> returns is the number of distinct names among the policies that
  passed validation.
\<close>

theorem Register_same_name_replaces:
  "(Validate p = None \<and> Validate q = None \<and> Name q = Name p \<longrightarrow>
      fst (Register (snd (Register r p)) q) = None \<and>
      Get (snd (Register (snd (Register r p)) q)) (Name p) = (Some q, True) \<and>
      fmdom' (policies (snd (Register (snd (Register r p)) q))) =
        fmdom' (policies (snd (Register r p)))) \<and>
   (range_order (policies (Register_calls NewPolicyRegistry ps)) ks \<longrightarrow>
      length (List (Register_calls NewPolicyRegistry ps) ks) =
        card (Name ` {p \<in> set ps. Validate p = None}))"
proof (intro conjI impI)
  assume "range_order (policies (Register_calls NewPolicyRegistry ps)) ks"
  then show "length (List (Register_calls NewPolicyRegistry ps) ks) =
        card (Name ` {p \<in> set ps. Validate p = None})"
    by (simp add: List_eq range_order_length Register_calls_dom NewPolicyRegistry_def)
qed (auto simp: Register_def Get_def)

text \<open>
  Two valid policies named alpha and an invalid one named beta: the later alpha is the
  one found, and \<open>List\<close> has one name.
\<close>

theorem Register_same_name_replaces_witness:
  "Validate (ok_policy ''alpha'') = None \<and> Validate late_alpha = None \<and>
   Name late_alpha = Name (ok_policy ''alpha'') \<and>
   Get (snd (Register (snd (Register NewPolicyRegistry (ok_policy ''alpha''))) late_alpha)) ''alpha'' =
     (Some late_alpha, True) \<and>
   range_order
     (policies (Register_calls NewPolicyRegistry [ok_policy ''alpha'', invalid_policy ''beta'', late_alpha]))
     [''alpha''] \<and>
   length (List (Register_calls NewPolicyRegistry [ok_policy ''alpha'', invalid_policy ''beta'', late_alpha])
             [''alpha'']) = 1"
  using Register_same_name_replaces[of "ok_policy ''alpha''" late_alpha NewPolicyRegistry
          "[ok_policy ''alpha'', invalid_policy ''beta'', late_alpha]" "[''alpha'']"]
  by (simp add: ok_policy_def late_alpha_def invalid_policy_def range_order_def Register_def
        NewPolicyRegistry_def List_def)


section \<open>Properties of the runtime\<close>

lemma registry_logf [simp]: "registry (logf l st) = registry st"
  by (simp add: logf_def)

lemma logged_logf [simp]: "logged (logf l st) = logged st @ [l]"
  by (simp add: logf_def)

lemma main_loop_step:
  "fmlookup (policies (registry st)) name = Some p \<Longrightarrow>
   main_loop input (name # rest) st =
     main_loop input rest
       (logf (case snd (Execute p Background input) of
                Some e \<Rightarrow> ErrorExecutingPolicy name e
              | None \<Rightarrow> LogResult (fst (Execute p Background input)))
          (logf (ExecutingPolicy name) st))"
  by (cases "Execute p Background input") (simp add: Get_def Let_def split: option.split)

lemma batch_lines_registered:
  "fmlookup (policies r) name = Some p \<Longrightarrow>
   batch_lines r input name =
     [ExecutingPolicy name,
      (case snd (Execute p Background input) of
         Some e \<Rightarrow> ErrorExecutingPolicy name e
       | None \<Rightarrow> LogResult (fst (Execute p Background input)))]"
  by (simp add: batch_lines_def split: option.split)

text \<open>
  Over names that are all in the registry the loop never panics, runs to the end and
  logs, for each name in turn, the lines of that policy.
\<close>

lemma main_loop_registered:
  "set ks \<subseteq> fmdom' (policies (registry st)) \<Longrightarrow>
   main_loop input ks st =
     Inr (st\<lparr> logged := logged st @ concat (map (batch_lines (registry st) input) ks) \<rparr>)"
proof (induction ks arbitrary: st)
  case Nil
  then show ?case by simp
next
  case (Cons name rest)
  then obtain p where p: "fmlookup (policies (registry st)) name = Some p"
    by (auto simp: fmlookup_dom'_iff)
  define l where "l = (case snd (Execute p Background input) of
                Some e \<Rightarrow> ErrorExecutingPolicy name e
              | None \<Rightarrow> LogResult (fst (Execute p Background input)))"
  define st1 where "st1 = logf l (logf (ExecutingPolicy name) st)"
  have r: "registry st1 = registry st"
    by (simp add: st1_def)
  have "set rest \<subseteq> fmdom' (policies (registry st1))"
    using Cons.prems r by simp
  then have "main_loop input rest st1 =
     Inr (st1\<lparr> logged := logged st1 @ concat (map (batch_lines (registry st1) input) rest) \<rparr>)"
    by (rule Cons.IH)
  moreover have "main_loop input (name # rest) st = main_loop input rest st1"
    unfolding st1_def l_def by (rule main_loop_step[OF p])
  moreover have "batch_lines (registry st) input name = [ExecutingPolicy name, l]"
    unfolding l_def by (rule batch_lines_registered[OF p])
  ultimately show ?case
    by (simp add: r) (simp add: st1_def logf_def)
qed

lemma executed_append: "executed (xs @ ys) = executed xs @ executed ys"
  by (induction xs rule: executed.induct) simp_all

lemma executed_batch:
  "set ks \<subseteq> fmdom' (policies r) \<Longrightarrow> executed (concat (map (batch_lines r input) ks)) = ks"
  by (induction ks)
    (auto simp: batch_lines_def executed_append fmlookup_dom'_iff split: option.splits)

lemma main_registered:
  assumes "range_order (policies (registry st)) ks"
  shows "main st ks =
     (0, st\<lparr> logged := logged st @
            (if ks = [] then [PolicyEngineStarting, Loaded 0 [], WarningNoPoliciesRegistered]
             else [PolicyEngineStarting, Loaded (length ks) ks, ExecutingPolicies] @
                  concat (map (batch_lines (registry st) sample_input) ks) @
                  [PolicyEngineCompletedSuccessfully]) \<rparr>)"
proof (cases "ks = []")
  case True
  then show ?thesis by (simp add: main_def List_eq logf_def)
next
  case False
  define st2 where
    "st2 = logf ExecutingPolicies (logf (Loaded (length ks) ks) (logf PolicyEngineStarting st))"
  have "set ks \<subseteq> fmdom' (policies (registry st2))"
    using assms by (simp add: st2_def range_order_def)
  then have "main_loop sample_input ks st2 =
     Inr (st2\<lparr> logged := logged st2 @ concat (map (batch_lines (registry st2) sample_input) ks) \<rparr>)"
    by (rule main_loop_registered)
  then show ?thesis using False
    by (simp add: main_def List_eq Let_def st2_def[symmetric]) (simp add: st2_def logf_def)
qed

text \<open>
  C1. As stated the claim does not hold: \<open>List\<close> does not sort, and its result is the
  names in the very order in which \<open>range\<close> visits the map. What holds: for every
  registry and every order \<open>ks\<close> that \<open>range\<close> may take, \<open>List\<close> returns \<open>ks\<close>, which
  has every registered name exactly once; \<open>main\<close> ends with status 0 and its log is the
  start line, the count with the names as \<open>List\<close> returned them and, when there is a
  name, the lines of each policy (announcement, then result or error of its \<open>Execute\<close>
  on the sample input) in exactly the order \<open>List\<close> returned, followed by the closing
  line; and after registering exactly alpha and beta, \<open>List\<close> returns one of the two
  orders of these names.
\<close>

theorem List_every_name_once:
  "(range_order (policies (registry st)) ks \<longrightarrow>
      List (registry st) ks = ks \<and>
      distinct (List (registry st) ks) \<and>
      set (List (registry st) ks) = fmdom' (policies (registry st)) \<and>
      fst (main st ks) = 0 \<and>
      executed (logged (snd (main st ks))) = executed (logged st) @ List (registry st) ks \<and>
      main st ks =
        (0, st\<lparr> logged := logged st @
               (if List (registry st) ks = []
                then [PolicyEngineStarting, Loaded 0 [], WarningNoPoliciesRegistered]
                else [PolicyEngineStarting,
                      Loaded (length (List (registry st) ks)) (List (registry st) ks),
                      ExecutingPolicies] @
                     concat (map (batch_lines (registry st) sample_input)
                               (List (registry st) ks)) @
                     [PolicyEngineCompletedSuccessfully]) \<rparr>)) \<and>
   (range_order (policies alpha_beta) ks' \<longrightarrow>
      List alpha_beta ks' = [''alpha'', ''beta''] \<or> List alpha_beta ks' = [''beta'', ''alpha''])"
proof (intro conjI impI)
  assume ro: "range_order (policies (registry st)) ks"
  show "List (registry st) ks = ks"
    by (rule List_eq)
  from ro show "distinct (List (registry st) ks)"
    and "set (List (registry st) ks) = fmdom' (policies (registry st))"
    by (simp_all add: List_eq range_order_def)
  have sub: "set ks \<subseteq> fmdom' (policies (registry st))"
    using ro by (simp add: range_order_def)
  show "fst (main st ks) = 0"
    by (simp add: main_registered[OF ro])
  show "executed (logged (snd (main st ks))) = executed (logged st) @ List (registry st) ks"
    by (simp add: main_registered[OF ro] executed_append executed_batch[OF sub] List_eq)
  show "main st ks =
        (0, st\<lparr> logged := logged st @
               (if List (registry st) ks = []
                then [PolicyEngineStarting, Loaded 0 [], WarningNoPoliciesRegistered]
                else [PolicyEngineStarting,
                      Loaded (length (List (registry st) ks)) (List (registry st) ks),
                      ExecutingPolicies] @
                     concat (map (batch_lines (registry st) sample_input)
                               (List (registry st) ks)) @
                     [PolicyEngineCompletedSuccessfully]) \<rparr>)"
    unfolding List_eq by (rule main_registered[OF ro])
next
  assume "range_order (policies alpha_beta) ks'"
  then have d: "distinct ks'" and s: "set ks' = {''alpha'', ''beta''}"
    by (auto simp: range_order_def alpha_beta_def NewPolicyRegistry_def Register_def ok_policy_def)
  then have "length ks' = 2"
    using distinct_card[OF d] by simp
  then obtain a b where ks': "ks' = [a, b]"
    by (auto simp: length_Suc_conv numeral_2_eq_2)
  with d s have "(a = ''alpha'' \<and> b = ''beta'') \<or> (a = ''beta'' \<and> b = ''alpha'')"
    by (auto simp: doubleton_eq_iff)
  then show "List alpha_beta ks' = [''alpha'', ''beta''] \<or> List alpha_beta ks' = [''beta'', ''alpha'']"
    by (auto simp: List_eq ks')
qed

text \<open>The registry of alpha and beta, visited by \<open>range\<close> with beta first.\<close>

theorem List_every_name_once_witness:
  "range_order (policies (registry \<lparr> registry = alpha_beta, logged = [] \<rparr>)) [''beta'', ''alpha''] \<and>
   set (List alpha_beta [''beta'', ''alpha'']) = fmdom' (policies alpha_beta) \<and>
   fst (main \<lparr> registry = alpha_beta, logged = [] \<rparr> [''beta'', ''alpha'']) = 0 \<and>
   executed (logged (snd (main \<lparr> registry = alpha_beta, logged = [] \<rparr> [''beta'', ''alpha'']))) =
     [''beta'', ''alpha''] \<and>
   List alpha_beta [''beta'', ''alpha''] = [''beta'', ''alpha''] \<and>
   main \<lparr> registry = alpha_beta, logged = [] \<rparr> [''beta'', ''alpha''] =
     (0, \<lparr> registry = alpha_beta,
           logged =
             [PolicyEngineStarting, Loaded 2 [''beta'', ''alpha''], ExecutingPolicies,
              ExecutingPolicy ''beta'',
              LogResult (VMap [(''policy'', VString ''beta''), (''input'', sample_input)]),
              ExecutingPolicy ''alpha'',
              LogResult (VMap [(''policy'', VString ''alpha''), (''input'', sample_input)]),
              PolicyEngineCompletedSuccessfully] \<rparr>)"
  using List_every_name_once[of "\<lparr> registry = alpha_beta, logged = [] \<rparr>" "[''beta'', ''alpha'']"
          "[''beta'', ''alpha'']"]
  by (simp add: range_order_def alpha_beta_def NewPolicyRegistry_def Register_def ok_policy_def
        List_def insert_commute batch_lines_def)

text \<open>
  After registering exactly alpha and beta, \<open>range\<close> may visit beta first; \<open>List\<close> then
  returns beta before alpha, which is not sorted and is not the list the claim names.
\<close>

theorem List_not_sorted_counterexample:
  "range_order (policies alpha_beta) [''beta'', ''alpha''] \<and>
   List alpha_beta [''beta'', ''alpha''] = [''beta'', ''alpha''] \<and>
   \<not> sorted (List alpha_beta [''beta'', ''alpha'']) \<and>
   List alpha_beta [''beta'', ''alpha''] \<noteq> [''alpha'', ''beta'']"
  by (simp add: range_order_def alpha_beta_def NewPolicyRegistry_def Register_def ok_policy_def
        List_def insert_commute)

text \<open>
  C4. For every registry, every input and every order in which \<open>List\<close> may return the
  names, the loop of \<open>main\<close> runs to the end, and its log is the concatenation, in that
  order, of the lines of each policy: a policy whose \<open>Execute\<close> returned an error
  contributes its announcement and the error line and no result line, every other
  policy contributes its announcement and its result line, whatever the others did.
\<close>

theorem batch_continues_after_error:
  assumes "range_order (policies (registry st)) ks"
  shows "main_loop input (List (registry st) ks) st =
     Inr (st\<lparr> logged := logged st @ concat (map (batch_lines (registry st) input) ks) \<rparr>)"
  using assms main_loop_registered[of ks st input] by (simp add: List_eq range_order_def)

text \<open>Three policies, the second of which fails: the first and the third log their results.\<close>

theorem batch_continues_after_error_witness:
  "range_order (policies (registry three_policies)) [''first'', ''second'', ''third''] \<and>
   main_loop sample_input (List (registry three_policies) [''first'', ''second'', ''third''])
     three_policies =
   Inr (three_policies\<lparr> logged :=
     [ExecutingPolicy ''first'',
      LogResult (VMap [(''policy'', VString ''first''), (''input'', sample_input)]),
      ExecutingPolicy ''second'',
      ErrorExecutingPolicy ''second'' ''execution failed'',
      ExecutingPolicy ''third'',
      LogResult (VMap [(''policy'', VString ''third''), (''input'', sample_input)])] \<rparr>)"
  using batch_continues_after_error[of three_policies "[''first'', ''second'', ''third'']" sample_input]
  by (simp add: three_policies_def range_order_def NewPolicyRegistry_def Register_def
        ok_policy_def failing_policy_def insert_commute batch_lines_def)

text \<open>
  C9. When the registry is empty, \<open>main\<close> logs the start line, the count 0 with the
  empty list and the warning, and returns with status 0: no policy is announced or
  executed and the registry is as it was.
\<close>

theorem main_empty_registry:
  assumes "policies (registry st) = fmempty"
    and "range_order (policies (registry st)) ks"
  shows "main st ks =
     (0, st\<lparr> logged := logged st @
                [PolicyEngineStarting, Loaded 0 [], WarningNoPoliciesRegistered] \<rparr>)"
proof -
  from assms have "ks = []" by (simp add: range_order_def)
  then show ?thesis by (simp add: main_def List_eq logf_def)
qed

theorem main_empty_registry_witness:
  "policies (registry initial_process) = fmempty \<and>
   range_order (policies (registry initial_process)) [] \<and>
   main initial_process [] =
     (0, \<lparr> registry = NewPolicyRegistry,
           logged = [PolicyEngineStarting, Loaded 0 [], WarningNoPoliciesRegistered] \<rparr>) \<and>
   executed (logged (snd (main initial_process []))) = []"
  using main_empty_registry[of initial_process "[]"]
  by (simp add: initial_process_def NewPolicyRegistry_def range_order_def)


section \<open>Properties of the build pipeline\<close>

subsection \<open>Replace directives\<close>










subsection \<open>The steps\<close>

lemma then_do_Inr [simp]: "then_do (Inr st) f = f st"
  by (simp add: then_do_def)

lemma then_do_Inl [simp]: "then_do (Inl e) f = Inl e"
  by (simp add: then_do_def)



lemma loop_body_declared:
  "loop_body w d st =
     (if declared d = [] then Inr st
      else then_do (run w (GoModEditReplace (replace_arg d))
                      (echo (Adding (declared d) (dir_path d)) st))
             (\<lambda>st. Inr (st\<lparr> manifest := AddReplace (replace_old d) (replace_new d) (manifest st) \<rparr>)))"
  by (simp add: loop_body_def declared_def replace_arg_def replace_old_def replace_new_def
        go_mod_edit_replace_def Let_def case_prod_beta split: option.split)






lemma for_policy_dir_glob:
  "for_policy_dir w (glob_policies w) st = for_policy_dir w (policy_dirs w) st"
  by (simp add: glob_policies_def loop_body_def)



lemma step1_result:
  "step1 w st =
     (if status w CdImportGenerator \<noteq> 0 then Inl (status w CdImportGenerator, echo Step1 st)
      else if status w GoModDownload \<noteq> 0 then Inl (status w GoModDownload, echo Step1 st)
      else if status w GoRunMain \<noteq> 0 then Inl (status w GoRunMain, echo Step1 st)
      else Inr (echo ImportGenerationComplete (echo Step1 st)))"
  by (simp add: step1_def run_def)





lemma step3_result:
  "step3 w st =
     (if status w GoBuild \<noteq> 0 then Inl (status w GoBuild, echo Step3 st)
      else Inr (echo BuildSummary (echo BuildComplete (echo Step3 st\<lparr> binary := True \<rparr>))))"
  by (simp add: step3_def run_def)

lemma step4_no_socket:
  "\<not> docker_socket w \<Longrightarrow>
   step4 w st = Inl (0, echo BinaryAvailable (echo WarningDockerSocketNotMounted (echo Step4 st)))"
  by (simp add: step4_def)

lemma step4_exit_status:
  "exit_status (step4 w st) \<noteq> 0 \<longleftrightarrow>
     docker_socket w \<and> (\<exists>c\<in>set (packaging_commands w). status w c \<noteq> 0)"
  by (simp add: step4_def exit_status_def run_def packaging_commands_def Let_def)

lemma step4_docker_build_fails:
  "docker_socket w \<Longrightarrow> status w (DockerBuild (IMAGE_NAME w) (IMAGE_TAG w)) \<noteq> 0 \<Longrightarrow>
   exit_status (step4 w st) \<noteq> 0 \<and> images (final_state (step4 w st)) = images st"
  by (simp add: step4_def exit_status_def final_state_def run_def Let_def echo_def)


subsection \<open>The whole script\<close>



text \<open>When the import generator fails, the script ends there: only the banner of step 1 was printed.\<close>

lemma build_sh_generator_fails:
  assumes "status w GoRunMain \<noteq> 0"
  shows "fst (build_sh w st) \<noteq> 0 \<and> snd (build_sh w st) = echo Step1 st"
  using assms by (simp add: build_sh_def step1_result)

subsection \<open>The example directories\<close>

lemma declared_alpha: "declared alpha_dir = ''org/alpha''"
  by code_simp

lemma declared_beta: "declared beta_dir = ''org/beta''"
  by code_simp

text \<open>The carriage return stays in what the shell extracts and goes when the go command trims.\<close>

lemma declared_gamma_crlf: "declared gamma_crlf_dir = ''org/alpha'' @ [CHR 0x0D]"
  by code_simp

lemma replace_alpha:
  "replace_old alpha_dir = (''org/alpha'', [])" "replace_new alpha_dir = (''/policies/alpha/'', [])"
  by code_simp+

lemma replace_beta:
  "replace_old beta_dir = (''org/beta'', [])" "replace_new beta_dir = (''/policies/beta/'', [])"
  by code_simp+

lemma replace_gamma_crlf:
  "replace_old gamma_crlf_dir = (''org/alpha'', [])"
  "replace_new gamma_crlf_dir = (''/policies/gamma/'', [])"
  by code_simp+

lemma dir_path_examples:
  "dir_path alpha_dir = ''/policies/alpha/''" "dir_path beta_dir = ''/policies/beta/''"
  "dir_path gamma_crlf_dir = ''/policies/gamma/''"
  by (simp_all add: alpha_dir_def beta_dir_def gamma_crlf_dir_def)

lemmas sh_eval = build_sh_def step1_def step2_def step3_def step4_def run_def echo_def
  then_do_def glob_policies_def loop_body_declared or_default_def Let_def
  IMAGE_NAME_def IMAGE_TAG_def example_world_def fresh_def

lemmas dir_eval = declared_alpha declared_beta declared_gamma_crlf
  replace_alpha replace_beta replace_gamma_crlf dir_path_examples

subsection \<open>The scanner\<close>

lemma recognise_unparsable:
  "s \<in> set ss \<Longrightarrow> found_manifest s = Unparsable \<Longrightarrow> \<exists>e. recognise ss = Inl e"
proof (induction ss)
  case Nil
  then show ?case by simp
next
  case (Cons a ss)
  show ?case
  proof (cases "s = a")
    case True
    with Cons.prems show ?thesis by simp
  next
    case False
    with Cons obtain e where "recognise ss = Inl e" by auto
    then show ?thesis
      by (cases "found_manifest a") simp_all
  qed
qed

lemma recognise_module:
  "recognise ss = Inr ms \<Longrightarrow> s \<in> set ss \<Longrightarrow> found_manifest s = Declares i \<Longrightarrow>
   source_file s \<Longrightarrow>
   \<lparr> root_relative_path = relative_path s, import_identifier = i \<rparr> \<in> set ms"
proof (induction ss arbitrary: ms)
  case Nil
  then show ?case by simp
next
  case (Cons a ss)
  show ?case
  proof (cases "found_manifest a")
    case NoManifest
    with Cons show ?thesis by auto
  next
    case Unparsable
    with Cons.prems show ?thesis by simp
  next
    case (Declares j)
    show ?thesis
    proof (cases "source_file a")
      case False
      with Declares Cons show ?thesis by auto
    next
      case True
      with Declares Cons.prems(1) obtain ms' where
        r: "recognise ss = Inr ms'"
        and ms: "ms = \<lparr> root_relative_path = relative_path a, import_identifier = j \<rparr> # ms'"
        by (auto split: sum.splits)
      show ?thesis
      proof (cases "s = a")
        case True
        with Declares Cons.prems(3) ms show ?thesis by simp
      next
        case False
        with Cons.prems have "s \<in> set ss" by simp
        from Cons.IH[OF r this Cons.prems(3,4)] ms show ?thesis by simp
      qed
    qed
  qed
qed

text \<open>Two modules in different directories with one identifier make the scan fail.\<close>

lemma scan_collision:
  assumes "s1 \<in> set ss" and "s2 \<in> set ss" and "relative_path s1 \<noteq> relative_path s2"
    and "found_manifest s1 = Declares i" and "found_manifest s2 = Declares i"
    and "source_file s1" and "source_file s2"
  shows "\<exists>e. scan ss = Inl e"
proof (cases "recognise ss")
  case (Inl e)
  then show ?thesis by (simp add: scan_def)
next
  case (Inr ms)
  define m1 where "m1 = \<lparr> root_relative_path = relative_path s1, import_identifier = i \<rparr>"
  define m2 where "m2 = \<lparr> root_relative_path = relative_path s2, import_identifier = i \<rparr>"
  have "m1 \<in> set ms" and "m2 \<in> set ms"
    unfolding m1_def m2_def using Inr assms by (auto intro: recognise_module)
  moreover have "m1 \<noteq> m2" and "import_identifier m1 = import_identifier m2"
    using assms(3) by (simp_all add: m1_def m2_def)
  ultimately have "\<not> inj_on import_identifier (set ms)"
    by (auto simp: inj_on_def)
  then have "\<not> distinct (map import_identifier ms)"
    by (simp add: distinct_map)
  with Inr show ?thesis by (simp add: scan_def)
qed

lemma scan_unparsable:
  "s \<in> set ss \<Longrightarrow> found_manifest s = Unparsable \<Longrightarrow> \<exists>e. scan ss = Inl e"
  using recognise_unparsable[of s ss] by (auto simp: scan_def)

text \<open>
  When the scan fails, the pipeline ends in its first step with a status other than
  0: the state is the one it started in with the banner of step 1 printed, and the
  aggregator source on disk is the one that was there.
\<close>

lemma pipeline_discovery_error:
  assumes "scan ss = Inl e"
  shows "fst (pipeline ss w (st, g)) \<noteq> 0 \<and> snd (pipeline ss w (st, g)) = (echo Step1 st, g)"
proof -
  have gen: "import_generator ss = Inl e"
    using assms by (simp add: import_generator_def)
  then have "status (with_generator ss w) GoRunMain \<noteq> 0"
    by (simp add: with_generator_def generator_status_def)
  from build_sh_generator_fails[OF this, of st] gen show ?thesis
    by (simp add: pipeline_def generator_writes_def Let_def)
qed

text \<open>
  C2. With the discovery scanner as the specification describes it in the place of
  the missing import generator: in every run in which two modules in different
  directories declare the same import identifier, the pipeline ends with a status
  other than 0 in its first step, before the rewrite loop: the manifest and the
  aggregator source are the ones the run started with, and the output is the banner
  of step 1 alone, so no directive of either module was written. The rewrite loop of
  \<open>build.sh\<close> has no check of its own; the run never reaches it.
\<close>

theorem colliding_identifiers_abort:
  assumes "s1 \<in> set ss" and "s2 \<in> set ss" and "relative_path s1 \<noteq> relative_path s2"
    and "found_manifest s1 = Declares i" and "found_manifest s2 = Declares i"
    and "source_file s1" and "source_file s2"
  shows "fst (pipeline ss w (st, g)) \<noteq> 0 \<and>
         snd (pipeline ss w (st, g)) = (echo Step1 st, g) \<and>
         manifest (fst (snd (pipeline ss w (st, g)))) = manifest st"
proof -
  from scan_collision[OF assms] obtain e where "scan ss = Inl e" by blast
  from pipeline_discovery_error[OF this, of w st g] show ?thesis
    by (simp add: echo_def)
qed

text \<open>
  The directories alpha and beta both declare \<open>org/alpha\<close>, and every command of the
  script would succeed: the pipeline ends with status 1 and an empty manifest.
\<close>

theorem colliding_identifiers_abort_witness:
  "alpha_sub \<in> set [alpha_sub, beta_as_alpha_sub] \<and>
   beta_as_alpha_sub \<in> set [alpha_sub, beta_as_alpha_sub] \<and>
   relative_path alpha_sub \<noteq> relative_path beta_as_alpha_sub \<and>
   found_manifest alpha_sub = Declares ''org/alpha'' \<and>
   found_manifest beta_as_alpha_sub = Declares ''org/alpha'' \<and>
   source_file alpha_sub \<and> source_file beta_as_alpha_sub \<and>
   pipeline [alpha_sub, beta_as_alpha_sub]
     (example_world [alpha_dir, gamma_crlf_dir] False (\<lambda>c. 0)) (fresh, None) =
     (1, \<lparr> manifest = fmempty, out = [Step1], binary = False, images = [] \<rparr>, None)"
  using colliding_identifiers_abort[of alpha_sub "[alpha_sub, beta_as_alpha_sub]"
          beta_as_alpha_sub "''org/alpha''"
          "example_world [alpha_dir, gamma_crlf_dir] False (\<lambda>c. 0)" fresh None]
  by (simp add: alpha_sub_def beta_as_alpha_sub_def pipeline_def with_generator_def
        generator_status_def generator_writes_def import_generator_def scan_def
        build_sh_def step1_def run_def then_do_def echo_def example_world_def fresh_def)

text \<open>
  C3. With the discovery scanner as the specification describes it in the place of
  the missing import generator: in every run in which a policy directory holds a
  manifest from which no import identifier can be extracted, the pipeline ends with a
  status other than 0 in its first step: the manifest and the aggregator source are
  the ones the run started with, and the output is the banner of step 1 alone. The
  directory is not skipped: the other directories are not processed either.
\<close>

theorem unparsable_manifest_aborts:
  assumes "s \<in> set ss" and "found_manifest s = Unparsable"
  shows "fst (pipeline ss w (st, g)) \<noteq> 0 \<and>
         snd (pipeline ss w (st, g)) = (echo Step1 st, g) \<and>
         manifest (fst (snd (pipeline ss w (st, g)))) = manifest st"
proof -
  from scan_unparsable[OF assms] obtain e where "scan ss = Inl e" by blast
  from pipeline_discovery_error[OF this, of w st g] show ?thesis
    by (simp add: echo_def)
qed

text \<open>
  A valid module, a directory that follows no convention and a directory with a
  manifest without identifier: the pipeline ends with status 1 and an empty manifest;
  without the last directory it ends with status 0 and has written the aggregator
  source and the directive of alpha.
\<close>

theorem unparsable_manifest_aborts_witness:
  "broken_sub \<in> set [alpha_sub, notes_sub, broken_sub] \<and>
   found_manifest broken_sub = Unparsable \<and>
   pipeline [alpha_sub, notes_sub, broken_sub]
     (example_world [alpha_dir] False (\<lambda>c. 0)) (fresh, None) =
     (1, \<lparr> manifest = fmempty, out = [Step1], binary = False, images = [] \<rparr>, None) \<and>
   fst (pipeline [alpha_sub, notes_sub] (example_world [alpha_dir] False (\<lambda>c. 0)) (fresh, None)) = 0 \<and>
   snd (snd (pipeline [alpha_sub, notes_sub] (example_world [alpha_dir] False (\<lambda>c. 0))
               (fresh, None))) =
     Some [''// Code generated by import-generator. DO NOT EDIT.'', ''package main'', ''import ('',
           ''alpha '' @ [CHR 0x22] @ ''org/alpha'' @ [CHR 0x22],
           '')'', ''func init() {'', ''RegisterPolicy(&alpha.Policy{})'', ''}''] \<and>
   fmlookup (manifest (fst (snd (pipeline [alpha_sub, notes_sub]
               (example_world [alpha_dir] False (\<lambda>c. 0)) (fresh, None)))))
     (''org/alpha'', []) = Some (''/policies/alpha/'', [])"
  using unparsable_manifest_aborts[of broken_sub "[alpha_sub, notes_sub, broken_sub]"
          "example_world [alpha_dir] False (\<lambda>c. 0)" fresh None]
  by (simp add: alpha_sub_def notes_sub_def broken_sub_def pipeline_def with_generator_def
        generator_status_def generator_writes_def import_generator_def scan_def
        discovered_def render_def aggregate_def final_segment_def
        sh_eval dir_eval AddReplace_def)

subsection \<open>What the go command reads from the argument of the loop\<close>








subsection \<open>The packaging step\<close>

text \<open>
  C6. As stated the claim does not hold: with the socket present the packaging step
  also ends the script when creating the build context, copying the binary, writing
  the Dockerfile or removing the build context fails, without the image build having
  failed. What holds: without the socket the step prints the warning and exits with
  status 0, leaving the state as the compile step left it (whenever the compile step
  completes, the binary is there), so no image is added; with the socket present and
  the image build failing the script exits with a status other than 0 and no image is
  added; and the step exits with a status other than 0 if and only if the socket is
  present and one of its five commands fails.
\<close>

theorem packaging_exit_status:
  "(\<not> docker_socket w \<longrightarrow>
      step4 w st =
        Inl (0, echo BinaryAvailable (echo WarningDockerSocketNotMounted (echo Step4 st)))) \<and>
   (docker_socket w \<and> status w (DockerBuild (IMAGE_NAME w) (IMAGE_TAG w)) \<noteq> 0 \<longrightarrow>
      exit_status (step4 w st) \<noteq> 0 \<and> images (final_state (step4 w st)) = images st) \<and>
   (exit_status (step4 w st) \<noteq> 0 \<longleftrightarrow>
      docker_socket w \<and> (\<exists>c\<in>set (packaging_commands w). status w c \<noteq> 0)) \<and>
   (step3 w st0 = Inr st \<longrightarrow> binary st)"
proof -
  have "step3 w st0 = Inr st \<longrightarrow> binary st"
    by (auto simp: step3_result echo_def split: if_splits)
  then show ?thesis
    using step4_no_socket step4_exit_status step4_docker_build_fails by blast
qed

text \<open>
  Without the socket the step exits with status 0 after the warning; with the socket
  and an image build that fails with status 125 the step exits with status 125; and
  the compile step leaves the binary.
\<close>

theorem packaging_exit_status_witness:
  "\<not> docker_socket (example_world [alpha_dir] False (\<lambda>c. 0)) \<and>
   step4 (example_world [alpha_dir] False (\<lambda>c. 0)) (fresh\<lparr> binary := True \<rparr>) =
     Inl (0, \<lparr> manifest = fmempty, out = [Step4, WarningDockerSocketNotMounted, BinaryAvailable],
               binary = True, images = [] \<rparr>) \<and>
   docker_socket (example_world [alpha_dir] True
     (\<lambda>c. if c = DockerBuild ''policy-engine'' ''latest'' then 125 else 0)) \<and>
   exit_status (step4 (example_world [alpha_dir] True
     (\<lambda>c. if c = DockerBuild ''policy-engine'' ''latest'' then 125 else 0)) (fresh\<lparr> binary := True \<rparr>))
     = 125 \<and>
   step3 (example_world [alpha_dir] False (\<lambda>c. 0)) fresh =
     Inr \<lparr> manifest = fmempty, out = [Step3, BuildComplete, BuildSummary], binary = True, images = [] \<rparr>"
  using packaging_exit_status[of "example_world [alpha_dir] False (\<lambda>c. 0)" "fresh\<lparr> binary := True \<rparr>"]
        packaging_exit_status[of "example_world [alpha_dir] True
          (\<lambda>c. if c = DockerBuild ''policy-engine'' ''latest'' then 125 else 0)"
          "fresh\<lparr> binary := True \<rparr>"]
        packaging_exit_status[of "example_world [alpha_dir] False (\<lambda>c. 0)"
          "\<lparr> manifest = fmempty, out = [Step3, BuildComplete, BuildSummary], binary = True, images = [] \<rparr>"
          fresh]
  by (simp add: sh_eval exit_status_def)

text \<open>
  The socket is present, copying the binary fails with status 1 and the image build
  would succeed: the packaging step, and with it the script, exits with status 1.
\<close>

theorem packaging_fails_without_build_failure_counterexample:
  "docker_socket (example_world [alpha_dir] True (\<lambda>c. if c = CpBinary then 1 else 0)) \<and>
   status (example_world [alpha_dir] True (\<lambda>c. if c = CpBinary then 1 else 0))
     (DockerBuild (IMAGE_NAME (example_world [alpha_dir] True (\<lambda>c. if c = CpBinary then 1 else 0)))
                  (IMAGE_TAG (example_world [alpha_dir] True (\<lambda>c. if c = CpBinary then 1 else 0)))) = 0 \<and>
   exit_status (step4 (example_world [alpha_dir] True (\<lambda>c. if c = CpBinary then 1 else 0)) fresh) = 1 \<and>
   fst (build_sh (example_world [alpha_dir] True (\<lambda>c. if c = CpBinary then 1 else 0)) fresh) = 1"
  by (simp add: sh_eval dir_eval exit_status_def)

subsection \<open>The rewrite step run twice\<close>



section \<open>Properties of the code generator\<close>

lemma discovered_identifiers:
  "map import_identifier (discovered ms) = sort (map import_identifier ms)"
proof -
  have "mset (map import_identifier (sort_key import_identifier ms)) =
        mset (map import_identifier ms)"
    by simp
  moreover have "sorted (map import_identifier (sort_key import_identifier ms))"
    by (rule sorted_sort_key)
  ultimately show ?thesis
    unfolding discovered_def by (metis properties_for_sort)
qed

lemma imports_of_aliases: "map snd (assign_aliases seen idents) = idents"
  by (induction idents arbitrary: seen) (simp_all add: Let_def)

text \<open>
  C8. For the generator as the specification describes it: two generation runs that
  meet the same modules in different traversal orders emit the same lines; the
  imports are in the sorted order of the import identifiers, and the registration
  calls follow the imports one for one.
\<close>

theorem generation_deterministic:
  "(mset ms = mset ms' \<longrightarrow> generate ms = generate ms') \<and>
   map snd (import_pairs (aggregate (discovered ms))) = sort (map import_identifier ms) \<and>
   registrations (aggregate (discovered ms)) = map fst (import_pairs (aggregate (discovered ms)))"
proof (intro conjI impI)
  assume "mset ms = mset ms'"
  then have "mset (map import_identifier ms) = mset (map import_identifier ms')"
    by (metis mset_map)
  then have "sort (map import_identifier ms) = sort (map import_identifier ms')"
    by (metis properties_for_sort sorted_sort mset_sort)
  then show "generate ms = generate ms'"
    by (simp add: generate_def aggregate_def discovered_identifiers)
next
  show "map snd (import_pairs (aggregate (discovered ms))) = sort (map import_identifier ms)"
    by (simp add: aggregate_def Let_def imports_of_aliases discovered_identifiers)
  show "registrations (aggregate (discovered ms)) =
        map fst (import_pairs (aggregate (discovered ms)))"
    by (simp add: aggregate_def Let_def)
qed

text \<open>Beta met before alpha and alpha met before beta give the same source, alpha first.\<close>

theorem generation_deterministic_witness:
  "mset [beta_module, alpha_module] = mset [alpha_module, beta_module] \<and>
   generate [beta_module, alpha_module] = generate [alpha_module, beta_module] \<and>
   generate [beta_module, alpha_module] =
     [''// Code generated by import-generator. DO NOT EDIT.'', ''package main'', ''import ('',
      ''alpha '' @ [CHR 0x22] @ ''org/alpha'' @ [CHR 0x22],
      ''beta '' @ [CHR 0x22] @ ''org/beta'' @ [CHR 0x22],
      '')'', ''func init() {'',
      ''RegisterPolicy(&alpha.Policy{})'', ''RegisterPolicy(&beta.Policy{})'', ''}'']"
  using generation_deterministic[of "[beta_module, alpha_module]" "[alpha_module, beta_module]"]
  by (simp add: generate_def render_def aggregate_def discovered_def alpha_module_def
        beta_module_def final_segment_def Let_def add_mset_commute)


end
